theory Spec2Isabelle
  imports Complex_Main "HOL-Library.Char_ord" "HOL-Library.List_Lexorder" "HOL-Library.Sublist"
begin

section \<open>Errors\<close>

text \<open>
  Every exception the modelled code can raise is a value. \<open>ValueError\<close> carries its
  message: the package raises it on an empty file list, numpy's \<open>.item()\<close> on an array
  that has not exactly one element. The other constructors stand for failures of the
  libraries called (pandas, the file system, xarray, argparse).
\<close>

datatype error =
    ValueError string
  | IndexError
  | FileError string
  | OutOfBoundsDatetime
  | XarrayError string
  | SystemExit

section \<open>Timestamps\<close>

text \<open>
  A pandas \<open>Timestamp\<close> is a count of nanoseconds since 1970-01-01T00:00:00 UTC,
  modelled as an \<open>int\<close>. \<open>days_from_civil\<close> is the proleptic Gregorian day count
  used to build one from calendar fields.
\<close>

definition days_from_civil :: "int \<Rightarrow> int \<Rightarrow> int \<Rightarrow> int" where
  "days_from_civil y m d =
     (let y' = (if m \<le> 2 then y - 1 else y);
          era = y' div 400;
          yoe = y' - era * 400;
          doy = (153 * (if m > 2 then m - 3 else m + 9) + 2) div 5 + d - 1;
          doe = yoe * 365 + yoe div 4 - yoe div 100 + doy
      in era * 146097 + doe - 719468)"

definition timestamp :: "int \<Rightarrow> int \<Rightarrow> int \<Rightarrow> int \<Rightarrow> int \<Rightarrow> int \<Rightarrow> int" where
  "timestamp y m d hh mm ss =
     (((days_from_civil y m d * 24 + hh) * 60 + mm) * 60 + ss) * 1000000000"

text \<open>\<open>pd.to_timedelta(h, unit="h")\<close>: a number of hours in nanoseconds.\<close>

definition to_timedelta_h :: "int \<Rightarrow> int" where
  "to_timedelta_h h = h * 3600000000000"

text \<open>
  \<open>pd.to_datetime(str(year))\<close> for a four-digit year: midnight of January 1st of that
  year, when it lies inside the range a \<open>Timestamp\<close> can hold (1677-09-21 to
  2262-04-11); pandas raises \<open>OutOfBoundsDatetime\<close> otherwise. Years that are not
  four-digit are outside the documented contract of \<open>get_storm_track\<close> and are
  rejected by the model in the same way.
\<close>

definition to_datetime_year :: "int \<Rightarrow> error + int" where
  "to_datetime_year y =
     (if 1678 \<le> y \<and> y \<le> 2262 then Inr (timestamp y 1 1 0 0 0)
      else Inl OutOfBoundsDatetime)"

section \<open>ibtracs.py\<close>

text \<open>
  Longitudes are Python floats: IEEE 754 doubles, every sum rounded to the nearest
  double, a tie going to the even mantissa. A finite double is modelled as the real
  number it denotes, and \<open>to_double\<close> is that rounding: the value is scaled by the
  power of two of its last mantissa bit (52 places below its binary exponent, which is
  held at -1022 for subnormal numbers), rounded to an integer and scaled back.
  Infinities and NaN are not modelled; no value here comes near the largest double.
\<close>

definition rint :: "real \<Rightarrow> int" where
  "rint y =
     (let f = \<lfloor>y\<rfloor>; d = y - of_int f
      in if d < 1 / 2 then f
         else if d > 1 / 2 then f + 1
         else if even f then f else f + 1)"

text \<open>
  The binary exponent of a positive magnitude \<open>a\<close>, searched upwards from 0 when
  \<open>1 \<le> a\<close> and downwards from -1 otherwise; the first argument bounds the search to
  the exponents a double has.
\<close>

fun exp_up :: "nat \<Rightarrow> real \<Rightarrow> int \<Rightarrow> int" where
  "exp_up 0 a e = e"
| "exp_up (Suc n) a e = (if a < 2 powi (e + 1) then e else exp_up n a (e + 1))"

fun exp_down :: "nat \<Rightarrow> real \<Rightarrow> int \<Rightarrow> int" where
  "exp_down 0 a e = e"
| "exp_down (Suc n) a e = (if 2 powi e \<le> a then e else exp_down n a (e - 1))"

definition binary_exponent :: "real \<Rightarrow> int" where
  "binary_exponent a = (if 1 \<le> a then exp_up 1023 a 0 else exp_down 1021 a (- 1))"

definition to_double :: "real \<Rightarrow> real" where
  "to_double x =
     (let q = binary_exponent \<bar>x\<bar> - 52
      in of_int (rint (x / 2 powi q)) * 2 powi q)"

text \<open>
  C's \<open>fmod\<close>, which is exact: \<open>x\<close> less the multiple of \<open>y\<close> given by the quotient
  truncated towards zero, so that the result has the sign of \<open>x\<close>.
\<close>

definition c_fmod :: "real \<Rightarrow> real \<Rightarrow> real" where
  "c_fmod x y = x - y * of_int (if 0 \<le> x / y then \<lfloor>x / y\<rfloor> else \<lceil>x / y\<rceil>)"

text \<open>
  Python's \<open>x % y\<close> on floats (for \<open>y \<noteq> 0\<close>): \<open>fmod\<close>, and when the remainder is not
  zero and its sign is not that of \<open>y\<close>, the float sum of the remainder and \<open>y\<close>.
\<close>

definition py_mod :: "real \<Rightarrow> real \<Rightarrow> real" where
  "py_mod x y =
     (let m = c_fmod x y
      in if m \<noteq> 0 \<and> ((y < 0) \<noteq> (m < 0)) then to_double (m + y) else m)"

text \<open>
  \<open>_lon_to_360\<close> (the leading underscore is dropped: ibtracs.py, lines 14-16):
  \<open>(360 + (dlon % 360)) % 360\<close>, the sum a float sum.
\<close>

definition lon_to_360 :: "real \<Rightarrow> real" where
  "lon_to_360 dlon = py_mod (to_double (360 + py_mod dlon 360)) 360"

text \<open>
  One row of the CSV table, with the columns the code reads. \<open>ISO_TIME\<close> holds the
  instant its text parses to, \<open>LAT\<close> and \<open>LON\<close> the numbers their text denotes;
  \<open>WMO_WIND\<close> and \<open>WMO_PRES\<close> stay text, as the code compares them with \<open>" "\<close>.
  The remaining columns of \<open>IBTRACS_EXTRACT_VARS\<close> are carried along unread and
  are left out.
\<close>

record raw_row =
  NAME :: string
  ISO_TIME :: int
  WMO_WIND :: string
  WMO_PRES :: string
  LAT :: real
  LON :: real

text \<open>A row of the returned frame: the extra column \<open>LON_180\<close> keeps the signed longitude.\<close>

record track_row = raw_row +
  LON_180 :: real

text \<open>
  The two assignments at the end of \<open>get_storm_track\<close>, row by row:
  \<open>data["LON_180"] = data["LON"]\<close>, then
  \<open>data["LON"] = data["LON"].astype(float).apply(_lon_to_360)\<close>, where \<open>astype(float)\<close>
  reads the text as the nearest double.
\<close>

definition add_lon_columns :: "raw_row \<Rightarrow> track_row" where
  "add_lon_columns r =
     \<lparr>NAME = NAME r, ISO_TIME = ISO_TIME r, WMO_WIND = WMO_WIND r, WMO_PRES = WMO_PRES r,
      LAT = LAT r, LON = lon_to_360 (to_double (LON r)), LON_180 = LON r\<rparr>"

text \<open>
  \<open>get_storm_track\<close>. The argument \<open>ibtracs_csv\<close> is what \<open>pd.read_csv\<close> returns
  for the path: the table, or the error it raises. \<open>data.iloc[1:, :]\<close> drops the first
  row of the table (the units row). \<open>extra_vars\<close> only selects further columns and is
  not modelled.
\<close>

definition get_storm_track ::
  "string \<Rightarrow> int \<Rightarrow> (error + raw_row list) \<Rightarrow> bool \<Rightarrow> error + track_row list" where
  "get_storm_track name year ibtracs_csv filter_missing_wmo =
     (case ibtracs_csv of
        Inl e \<Rightarrow> Inl e
      | Inr table \<Rightarrow>
          let data = drop 1 table in
          (case to_datetime_year year of
             Inl e \<Rightarrow> Inl e
           | Inr year_start \<Rightarrow>
               (case to_datetime_year (year + 1) of
                  Inl e \<Rightarrow> Inl e
                | Inr year_end \<Rightarrow>
                    let data = filter (\<lambda>r. NAME r = name) data;
                        data = filter (\<lambda>r. ISO_TIME r \<ge> year_start \<and> ISO_TIME r < year_end) data;
                        data = (if filter_missing_wmo
                                then filter (\<lambda>r. WMO_PRES r \<noteq> '' '')
                                       (filter (\<lambda>r. WMO_WIND r \<noteq> '' '') data)
                                else data)
                    in Inr (map add_lon_columns data))))"

section \<open>config.py\<close>

definition SND_VARS_TO_KEEP :: "string list" where
  "SND_VARS_TO_KEEP =
     [''Player'', ''Plevel'', ''PTemp'', ''PVapor'', ''PClw'', ''PRain'', ''PGraupel'']"

definition IMG_VARS_TO_REMOVE :: "string list" where
  "IMG_VARS_TO_REMOVE =
     [''Atm_type'', ''ChanSel'', ''SWP'', ''IWP'', ''Snow'',
      ''SWE'', ''SnowGS'', ''SIce'', ''SIce_MY'', ''SIce_FY'', ''SFR'',
      ''CldTop'', ''CldBase'', ''CldThick'', ''PrecipType'', ''RFlag'', ''SurfM'',
      ''WindSp'', ''WindDir'', ''WindU'', ''WindV'', ''Prob_SF'', ''quality_information'']"

definition TIME_WINDOW_HOURS :: int where
  "TIME_WINDOW_HOURS = 12"

section \<open>mirs.py\<close>

text \<open>
  An open granule file: the four global attributes \<open>_granule_overlaps_track_point\<close>
  reads and the variables of the file. The two coverage attributes hold the UTC
  instants their text parses to; \<open>geospatial_bounds\<close> holds the polygon its
  well-known text denotes, of a type \<open>'p\<close> the model leaves to shapely.
\<close>

record ('p, 'd) dataset =
  time_coverage_start :: int
  time_coverage_end :: int
  geospatial_first_scanline_first_fov_lon :: real
  geospatial_bounds :: 'p
  data_vars :: 'd

text \<open>
  \<open>_granule_overlaps_track_point\<close> (mirs.py, lines 21-58). \<open>point_within\<close> is
  shapely's \<open>Point(float(lon_180), float(lat)).within(polygon)\<close>, the conversion of the
  two coordinates to floats included, a parameter of the model.
\<close>

definition granule_overlaps_track_point ::
  "(real \<times> real \<Rightarrow> 'p \<Rightarrow> bool) \<Rightarrow> ('p, 'd) dataset \<Rightarrow> real \<Rightarrow> real \<Rightarrow> int \<Rightarrow> int \<Rightarrow> bool \<Rightarrow> bool" where
  "granule_overlaps_track_point point_within ds lat lon_180 t_behind t_ahead require_east_of_dateline =
     (let start = time_coverage_start ds;
          end = time_coverage_end ds
      in if \<not> (t_behind \<le> start \<and> t_ahead \<ge> end) then False
         else if require_east_of_dateline \<and> geospatial_first_scanline_first_fov_lon ds \<ge> 0
              then False
         else point_within (lon_180, lat) (geospatial_bounds ds))"

text \<open>
  The directory \<open>mirs_dir\<close> as the code sees it: \<open>os.listdir\<close> gives its file names
  (\<open>None\<close> when the directory cannot be listed), and \<open>xr.open_dataset\<close> opens the file
  of a given name (\<open>None\<close> when it cannot be opened or read).
\<close>

record ('p, 'd) directory =
  listdir :: "string list option"
  open_dataset :: "string \<Rightarrow> ('p, 'd) dataset option"

text \<open>
  \<open>series.iloc[i]\<close>: positional indexing, negative positions counting from the end,
  \<open>IndexError\<close> out of range.
\<close>

definition iloc :: "'a list \<Rightarrow> int \<Rightarrow> error + 'a" where
  "iloc xs i =
     (if 0 \<le> i \<and> i < int (length xs) then Inr (xs ! nat i)
      else if i < 0 \<and> - int (length xs) \<le> i then Inr (xs ! nat (int (length xs) + i))
      else Inl IndexError)"

text \<open>
  Line 91: \<open>indices = track_indices if track_indices is not None else range(len(track))\<close>.
\<close>

definition scanned_indices :: "track_row list \<Rightarrow> int list option \<Rightarrow> int list" where
  "scanned_indices track track_indices =
     (case track_indices of Some ixs \<Rightarrow> ixs | None \<Rightarrow> map int [0..<length track])"

text \<open>The inner loop of \<open>find_mirs_files\<close> (lines 104-113), \<open>matched\<close> threaded through.\<close>

fun scan_directory ::
  "(real \<times> real \<Rightarrow> 'p \<Rightarrow> bool) \<Rightarrow> ('p, 'd) directory \<Rightarrow> real \<Rightarrow> real \<Rightarrow> int \<Rightarrow> int \<Rightarrow> bool \<Rightarrow>
   string list \<Rightarrow> string set \<Rightarrow> error + string set" where
  "scan_directory point_within mirs_dir lat_val lon_val t_behind t_ahead req [] matched = Inr matched"
| "scan_directory point_within mirs_dir lat_val lon_val t_behind t_ahead req (fname # rest) matched =
     (if \<not> suffix ''.nc'' fname
      then scan_directory point_within mirs_dir lat_val lon_val t_behind t_ahead req rest matched
      else (case open_dataset mirs_dir fname of
              None \<Rightarrow> Inl (FileError fname)
            | Some ds \<Rightarrow>
                scan_directory point_within mirs_dir lat_val lon_val t_behind t_ahead req rest
                  (if granule_overlaps_track_point point_within ds lat_val lon_val t_behind t_ahead req
                   then insert fname matched else matched)))"

text \<open>The outer loop (lines 94-113): one pass over the directory for each track index.\<close>

fun scan_track ::
  "(real \<times> real \<Rightarrow> 'p \<Rightarrow> bool) \<Rightarrow> track_row list \<Rightarrow> ('p, 'd) directory \<Rightarrow> string list \<Rightarrow> int \<Rightarrow> bool \<Rightarrow>
   int list \<Rightarrow> string set \<Rightarrow> error + string set" where
  "scan_track point_within track mirs_dir mirs_files time_window_hours req [] matched = Inr matched"
| "scan_track point_within track mirs_dir mirs_files time_window_hours req (ipt # rest) matched =
     (case iloc track ipt of
        Inl e \<Rightarrow> Inl e
      | Inr row \<Rightarrow>
          let t_val = ISO_TIME row;
              lat_val = LAT row;
              lon_val = LON_180 row;
              t_ahead = t_val + to_timedelta_h time_window_hours;
              t_behind = t_val - to_timedelta_h time_window_hours
          in (case scan_directory point_within mirs_dir lat_val lon_val t_behind t_ahead req
                     mirs_files matched of
                Inl e \<Rightarrow> Inl e
              | Inr matched' \<Rightarrow>
                  scan_track point_within track mirs_dir mirs_files time_window_hours req rest matched'))"

text \<open>
  \<open>find_mirs_files\<close> (lines 61-117). \<open>matched\<close> is a Python set; \<open>sorted\<close> of the
  members with a given prefix is the sorted list of that subset.
\<close>

definition find_mirs_files ::
  "(real \<times> real \<Rightarrow> 'p \<Rightarrow> bool) \<Rightarrow> track_row list \<Rightarrow> ('p, 'd) directory \<Rightarrow> int \<Rightarrow> bool \<Rightarrow>
   int list option \<Rightarrow> error + (string list \<times> string list)" where
  "find_mirs_files point_within track mirs_dir time_window_hours require_east_of_dateline track_indices =
     (case listdir mirs_dir of
        None \<Rightarrow> Inl (FileError ''listdir'')
      | Some mirs_files \<Rightarrow>
          let indices = scanned_indices track track_indices
          in (case scan_track point_within track mirs_dir mirs_files time_window_hours
                     require_east_of_dateline indices {} of
                Inl e \<Rightarrow> Inl e
              | Inr matched \<Rightarrow>
                  Inr (sorted_list_of_set (Set.filter (prefix ''NPR-MIRS-IMG'') matched),
                       sorted_list_of_set (Set.filter (prefix ''NPR-MIRS-SND'') matched))))"

text \<open>
  What one turn of the two loops tests (lines 95-111): the file \<open>fname\<close> opened and
  put to \<open>_granule_overlaps_track_point\<close> against the track row at position \<open>ipt\<close>
  with the window \<open>time_window_hours\<close> either side of its timestamp.
\<close>

definition point_matches ::
  "(real \<times> real \<Rightarrow> 'p \<Rightarrow> bool) \<Rightarrow> track_row list \<Rightarrow> ('p, 'd) directory \<Rightarrow> int \<Rightarrow> bool \<Rightarrow>
   string \<Rightarrow> int \<Rightarrow> bool" where
  "point_matches point_within track mirs_dir time_window_hours req fname ipt =
     (case iloc track ipt of
        Inl e \<Rightarrow> False
      | Inr row \<Rightarrow>
          (case open_dataset mirs_dir fname of
             None \<Rightarrow> False
           | Some ds \<Rightarrow>
               granule_overlaps_track_point point_within ds (LAT row) (LON_180 row)
                 (ISO_TIME row - to_timedelta_h time_window_hours)
                 (ISO_TIME row + to_timedelta_h time_window_hours) req))"

text \<open>
  The xarray operations the package calls on whole datasets, as parameters:
  \<open>xr.concat(list, dim="Scanline")\<close>, \<open>ds.drop_vars(names, errors="ignore")\<close>,
  \<open>ds[names]\<close> and \<open>xr.merge\<close>. \<open>None\<close> is the operation raising.
\<close>

record ('p, 'd, 's, 'm) xarray =
  xr_concat :: "('p, 'd) dataset list \<Rightarrow> ('p, 'd) dataset option"
  xr_drop_vars :: "string list \<Rightarrow> ('p, 'd) dataset \<Rightarrow> ('p, 'd) dataset"
  xr_getitem :: "string list \<Rightarrow> ('p, 'd) dataset \<Rightarrow> ('p, 'd) dataset option"
  xr_merge :: "('p, 'd) dataset \<Rightarrow> ('p, 'd) dataset \<Rightarrow> 's \<Rightarrow> 'm option"

text \<open>The list comprehension \<open>[xr.open_dataset(os.path.join(mirs_dir, f)) for f in files]\<close>.\<close>

fun open_all :: "('p, 'd) directory \<Rightarrow> string list \<Rightarrow> error + ('p, 'd) dataset list" where
  "open_all mirs_dir [] = Inr []"
| "open_all mirs_dir (f # fs) =
     (case open_dataset mirs_dir f of
        None \<Rightarrow> Inl (FileError f)
      | Some ds \<Rightarrow>
          (case open_all mirs_dir fs of
             Inl e \<Rightarrow> Inl e
           | Inr dss \<Rightarrow> Inr (ds # dss)))"

text \<open>\<open>load_and_merge_mirs\<close> (lines 120-164).\<close>

definition load_and_merge_mirs ::
  "('p, 'd, 's, 'm) xarray \<Rightarrow> string list \<Rightarrow> string list \<Rightarrow> ('p, 'd) directory \<Rightarrow>
   string list \<Rightarrow> string list \<Rightarrow> error + (('p, 'd) dataset \<times> ('p, 'd) dataset)" where
  "load_and_merge_mirs xr img_files snd_files mirs_dir snd_vars_to_keep img_vars_to_remove =
     (if img_files = [] then Inl (ValueError ''No MIRS IMG files provided.'')
      else if snd_files = [] then Inl (ValueError ''No MIRS SND files provided.'')
      else
        (case open_all mirs_dir img_files of
           Inl e \<Rightarrow> Inl e
         | Inr ds_img_list \<Rightarrow>
             (case xr_concat xr ds_img_list of
                None \<Rightarrow> Inl (XarrayError ''concat'')
              | Some img_all \<Rightarrow>
                  let ds_img = xr_drop_vars xr img_vars_to_remove img_all in
                  (case open_all mirs_dir snd_files of
                     Inl e \<Rightarrow> Inl e
                   | Inr ds_snd_list \<Rightarrow>
                       (case xr_concat xr ds_snd_list of
                          None \<Rightarrow> Inl (XarrayError ''concat'')
                        | Some snd_all \<Rightarrow>
                            (case xr_getitem xr snd_vars_to_keep snd_all of
                               None \<Rightarrow> Inl (XarrayError ''getitem'')
                             | Some ds_snd \<Rightarrow> Inr (ds_img, ds_snd)))))))"

section \<open>output.py\<close>

text \<open>
  One storm of the IBTrACS netCDF file: \<open>name\<close> and \<open>season\<close> along the storm
  dimension, \<open>iso_time\<close>, \<open>lat\<close> and \<open>lon\<close> along the storm's \<open>date_time\<close>
  dimension. \<open>None\<close> in \<open>lat\<close> or \<open>lon\<close> is the NaN that pads a track.
\<close>

record ibtracs_storm =
  name :: string
  season :: int
  iso_time :: "string list"
  lat :: "real option list"
  lon :: "real option list"

text \<open>
  \<open>DataArray.min()\<close> and \<open>.max()\<close> skip NaN and give NaN when nothing is left.
\<close>

definition xr_min :: "real option list \<Rightarrow> real option" where
  "xr_min xs = (case List.map_filter id xs of [] \<Rightarrow> None | y # ys \<Rightarrow> Some (fold min ys y))"

definition xr_max :: "real option list \<Rightarrow> real option" where
  "xr_max xs = (case List.map_filter id xs of [] \<Rightarrow> None | y # ys \<Rightarrow> Some (fold max ys y))"

text \<open>
  \<open>round(x, 2)\<close> on exact reals: the nearest multiple of 1/100, a tie going to the
  even one. \<open>round(nan, 2)\<close> is NaN.
\<close>

definition py_round2 :: "real \<Rightarrow> real" where
  "py_round2 x =
     (let y = x * 100; f = \<lfloor>y\<rfloor>; d = y - of_int f
      in of_int (if d < 1 / 2 then f
                 else if d > 1 / 2 then f + 1
                 else if even f then f else f + 1) / 100)"

definition round_attr :: "real option \<Rightarrow> real option" where
  "round_attr v = map_option py_round2 v"

text \<open>
  \<open>ds_storm["iso_time"][:, 0].item()\<close>: the first entry along \<open>date_time\<close> of every
  selected storm, then \<open>.item()\<close>, which raises unless exactly one element is left.
\<close>

definition first_iso_time :: "ibtracs_storm list \<Rightarrow> error + string" where
  "first_iso_time ds_storm =
     (if list_ex (\<lambda>s. iso_time s = []) ds_storm then Inl IndexError
      else (case map (hd \<circ> iso_time) ds_storm of
              [t] \<Rightarrow> Inr t
            | _ \<Rightarrow> Inl (ValueError ''can only convert an array of size 1 to a Python scalar'')))"

record 'm output_dataset =
  merged :: 'm
  TC_name :: string
  TC_time_start :: string
  TC_minimum_lat :: "real option"
  TC_minimum_lon :: "real option"
  TC_maximum_lat :: "real option"
  TC_maximum_lon :: "real option"

text \<open>
  \<open>build_output_dataset\<close> (output.py, lines 12-52). \<open>ds.where(cond, drop=True)\<close> with
  a condition along the storm dimension keeps the storms that satisfy it.
\<close>

definition build_output_dataset ::
  "('p, 'd, ibtracs_storm list, 'm) xarray \<Rightarrow> ('p, 'd) dataset \<Rightarrow> ('p, 'd) dataset \<Rightarrow>
   ibtracs_storm list \<Rightarrow> string \<Rightarrow> int \<Rightarrow> error + 'm output_dataset" where
  "build_output_dataset xr ds_img ds_snd ds_ibt storm_name storm_year =
     (let ds_storm = filter (\<lambda>s. name s = storm_name) ds_ibt;
          ds_storm = filter (\<lambda>s. season s = storm_year) ds_storm
      in (case xr_merge xr ds_img ds_snd ds_storm of
            None \<Rightarrow> Inl (XarrayError ''merge'')
          | Some ds_merged \<Rightarrow>
              (case first_iso_time ds_storm of
                 Inl e \<Rightarrow> Inl e
               | Inr t \<Rightarrow>
                   Inr \<lparr>merged = ds_merged,
                        TC_name = storm_name,
                        TC_time_start = t,
                        TC_minimum_lat = round_attr (xr_min (concat (map lat ds_storm))),
                        TC_minimum_lon = round_attr (xr_min (concat (map lon ds_storm))),
                        TC_maximum_lat = round_attr (xr_max (concat (map lat ds_storm))),
                        TC_maximum_lon = round_attr (xr_max (concat (map lon ds_storm)))\<rparr>)))"

section \<open>cli.py\<close>

text \<open>
  The namespace \<open>parse_args\<close> returns (the attribute \<open>output\<close> is written
  \<open>output'\<close>, \<open>output\<close> being a keyword).
\<close>

record args =
  name :: string
  year :: int
  mirs_dir :: string
  ibt_nc :: string
  ibt_csv :: string
  output' :: "string option"
  test_indices :: "int list option"
  filter_missing_wmo :: bool

text \<open>
  The command line after argparse has split it into options: one constructor for each
  option string the parser declares (\<open>BooleanOptionalAction\<close> declares both
  \<open>--filter-missing-wmo\<close> and \<open>--no-filter-missing-wmo\<close>).
\<close>

datatype cli_option =
    OptName string
  | OptYear int
  | OptMirsDir string
  | OptIbtNc string
  | OptIbtCsv string
  | OptOutput string
  | OptTestIndices "int list"
  | OptFilterMissingWmo
  | OptNoFilterMissingWmo

text \<open>The declared defaults, with the two required options filled in.\<close>

definition default_args :: "string \<Rightarrow> int \<Rightarrow> args" where
  "default_args n y =
     \<lparr>name = n, year = y,
      mirs_dir = ''/Users/sophiahu/Documents/MIRS_DATA/'',
      ibt_nc = ''IBTrACS.ALL.v04r00.nc'',
      ibt_csv = ''ibtracs.ALL.list.v04r00.csv'',
      output' = None,
      test_indices = None,
      filter_missing_wmo = True\<rparr>"

fun set_option :: "cli_option \<Rightarrow> args \<Rightarrow> args" where
  "set_option (OptName n) a = a\<lparr>name := n\<rparr>"
| "set_option (OptYear y) a = a\<lparr>year := y\<rparr>"
| "set_option (OptMirsDir d) a = a\<lparr>mirs_dir := d\<rparr>"
| "set_option (OptIbtNc f) a = a\<lparr>ibt_nc := f\<rparr>"
| "set_option (OptIbtCsv f) a = a\<lparr>ibt_csv := f\<rparr>"
| "set_option (OptOutput f) a = a\<lparr>output' := Some f\<rparr>"
| "set_option (OptTestIndices ixs) a = a\<lparr>test_indices := Some ixs\<rparr>"
| "set_option OptFilterMissingWmo a = a\<lparr>filter_missing_wmo := True\<rparr>"
| "set_option OptNoFilterMissingWmo a = a\<lparr>filter_missing_wmo := False\<rparr>"

fun is_name :: "cli_option \<Rightarrow> bool" where
  "is_name (OptName n) = True"
| "is_name opt = False"

fun is_year :: "cli_option \<Rightarrow> bool" where
  "is_year (OptYear y) = True"
| "is_year opt = False"

text \<open>
  \<open>parse_args\<close> (cli.py, lines 25-65): each option overwrites its attribute, the
  last occurrence standing; argparse exits when \<open>--name\<close> or \<open>--year\<close> is missing.
\<close>

definition parse_args :: "cli_option list \<Rightarrow> error + args" where
  "parse_args argv =
     (if list_ex is_name argv \<and> list_ex is_year argv
      then Inr (fold set_option argv (default_args [] 0))
      else Inl SystemExit)"

text \<open>\<open>str.upper\<close> on ASCII letters, and \<open>str\<close> of an integer.\<close>

definition upper_char :: "char \<Rightarrow> char" where
  "upper_char c =
     (let n = (of_char c :: nat) in if 97 \<le> n \<and> n \<le> 122 then char_of (n - 32) else c)"

definition upper :: "string \<Rightarrow> string" where
  "upper s = map upper_char s"

fun str_nat :: "nat \<Rightarrow> string" where
  "str_nat n =
     (if n < 10 then [char_of (48 + n)] else str_nat (n div 10) @ [char_of (48 + n mod 10)])"

definition str_int :: "int \<Rightarrow> string" where
  "str_int i = (if i < 0 then CHR ''-'' # str_nat (nat (- i)) else str_nat (nat i))"

text \<open>
  What \<open>main\<close> reads from outside: \<open>pd.read_csv\<close> of a path, the granule directory
  at a path, and \<open>xr.open_dataset\<close> of the IBTrACS netCDF path.
\<close>

record ('p, 'd) files =
  read_csv :: "string \<Rightarrow> error + raw_row list"
  mirs_directory :: "string \<Rightarrow> ('p, 'd) directory"
  open_ibtracs :: "string \<Rightarrow> ibtracs_storm list option"

text \<open>
  The first stage of \<open>main\<close> (cli.py, lines 71-83): the storm name in upper case,
  the local \<open>filter_wmo\<close> and the call of \<open>get_storm_track\<close>.
\<close>

definition main_track :: "('p, 'd) files \<Rightarrow> args \<Rightarrow> error + track_row list" where
  "main_track fs a =
     (let storm_name = upper (name a);
          filter_wmo = (filter_missing_wmo a \<and> year a \<noteq> 2021)
      in get_storm_track storm_name (year a) (read_csv fs (ibt_csv a)) filter_wmo)"

text \<open>
  \<open>main\<close> (cli.py, lines 68-101), returning the path and the dataset that
  \<open>write_output\<close> writes. \<open>find_mirs_files\<close> and \<open>load_and_merge_mirs\<close> are called
  with their defaults.
\<close>

definition main ::
  "(real \<times> real \<Rightarrow> 'p \<Rightarrow> bool) \<Rightarrow> ('p, 'd, ibtracs_storm list, 'm) xarray \<Rightarrow> ('p, 'd) files \<Rightarrow>
   cli_option list \<Rightarrow> error + (string \<times> 'm output_dataset)" where
  "main point_within xr fs argv =
     (case parse_args argv of
        Inl e \<Rightarrow> Inl e
      | Inr a \<Rightarrow>
          let storm_name = upper (name a);
              output_file = (case output' a of
                               None \<Rightarrow> storm_name @ ''_'' @ str_int (year a) @ ''_all_data.nc''
                             | Some f \<Rightarrow> if f = [] then storm_name @ ''_'' @ str_int (year a) @ ''_all_data.nc''
                                         else f)
          in (case main_track fs a of
                Inl e \<Rightarrow> Inl e
              | Inr track \<Rightarrow>
                  (case find_mirs_files point_within track (mirs_directory fs (mirs_dir a))
                          TIME_WINDOW_HOURS True (test_indices a) of
                     Inl e \<Rightarrow> Inl e
                   | Inr (img_files, snd_files) \<Rightarrow>
                       (case load_and_merge_mirs xr img_files snd_files
                               (mirs_directory fs (mirs_dir a))
                               SND_VARS_TO_KEEP IMG_VARS_TO_REMOVE of
                          Inl e \<Rightarrow> Inl e
                        | Inr (ds_img, ds_snd) \<Rightarrow>
                            (case open_ibtracs fs (ibt_nc a) of
                               None \<Rightarrow> Inl (FileError (ibt_nc a))
                             | Some ds_ibt \<Rightarrow>
                                 (case build_output_dataset xr ds_img ds_snd ds_ibt
                                         storm_name (year a) of
                                    Inl e \<Rightarrow> Inl e
                                  | Inr ds_out \<Rightarrow> Inr (output_file, ds_out)))))))"

section \<open>Example inputs\<close>

text \<open>
  A small table (its first row the units row) and the track it yields for IDA, 2021.
  The converted longitudes are the doubles the code computes: 269.79999999999995
  (1186592948695859 / 2^42) for -90.2, 269.4 (2369667460182835 / 2^43) for -90.6.
\<close>

definition example_table :: "raw_row list" where
  "example_table =
     [\<lparr>NAME = '' '', ISO_TIME = 0, WMO_WIND = ''kts'', WMO_PRES = ''mb'', LAT = 0, LON = 0\<rparr>,
      \<lparr>NAME = ''IDA'', ISO_TIME = timestamp 2021 8 29 12 0 0, WMO_WIND = ''130'',
       WMO_PRES = ''931'', LAT = 29.1, LON = -90.2\<rparr>,
      \<lparr>NAME = ''IDA'', ISO_TIME = timestamp 2021 8 29 18 0 0, WMO_WIND = '' '',
       WMO_PRES = ''935'', LAT = 29.9, LON = -90.6\<rparr>,
      \<lparr>NAME = ''IDA'', ISO_TIME = timestamp 2021 12 31 23 59 59, WMO_WIND = ''20'',
       WMO_PRES = '' '', LAT = 40, LON = -70\<rparr>,
      \<lparr>NAME = ''IDA'', ISO_TIME = timestamp 2022 1 1 0 0 0, WMO_WIND = ''20'',
       WMO_PRES = ''1010'', LAT = 41, LON = -69\<rparr>,
      \<lparr>NAME = ''IDA'', ISO_TIME = timestamp 2022 1 1 6 0 0, WMO_WIND = '' '',
       WMO_PRES = ''1012'', LAT = 42, LON = -68\<rparr>,
      \<lparr>NAME = ''LARRY'', ISO_TIME = timestamp 2021 9 5 0 0 0, WMO_WIND = ''110'',
       WMO_PRES = ''955'', LAT = 20, LON = -50\<rparr>]"

definition example_track :: "track_row list" where
  "example_track =
     [\<lparr>NAME = ''IDA'', ISO_TIME = timestamp 2021 8 29 12 0 0, WMO_WIND = ''130'',
       WMO_PRES = ''931'', LAT = 29.1, LON = 1186592948695859 / 4398046511104, LON_180 = -90.2\<rparr>,
      \<lparr>NAME = ''IDA'', ISO_TIME = timestamp 2021 8 29 18 0 0, WMO_WIND = '' '',
       WMO_PRES = ''935'', LAT = 29.9, LON = 2369667460182835 / 8796093022208, LON_180 = -90.6\<rparr>,
      \<lparr>NAME = ''IDA'', ISO_TIME = timestamp 2021 12 31 23 59 59, WMO_WIND = ''20'',
       WMO_PRES = '' '', LAT = 40, LON = 290, LON_180 = -70\<rparr>]"

text \<open>
  A granule directory. Polygons are boxes \<open>(x0, y0, x1, y1)\<close> and a point is within a
  box when it lies strictly inside. Two granules (imagery and sounding) cover
  14:00-14:10 on 2021-08-29 over the first two track points; one ends a second after
  the window of the second track point closes; one has first-scan longitude 5.0.
\<close>

type_synonym box = "real \<times> real \<times> real \<times> real"

type_synonym variables = "(string \<times> real list) list"

definition example_within :: "real \<times> real \<Rightarrow> box \<Rightarrow> bool" where
  "example_within p b =
     (case p of (x, y) \<Rightarrow> (case b of (x0, y0, x1, y1) \<Rightarrow> x0 < x \<and> x < x1 \<and> y0 < y \<and> y < y1))"

definition example_granule :: "int \<Rightarrow> int \<Rightarrow> real \<Rightarrow> (box, variables) dataset" where
  "example_granule t0 t1 lon0 =
     \<lparr>time_coverage_start = t0, time_coverage_end = t1,
      geospatial_first_scanline_first_fov_lon = lon0,
      geospatial_bounds = (-100, 20, -80, 40),
      data_vars = [(''Player'', [1]), (''Plevel'', [1000]), (''PTemp'', [250]), (''PVapor'', [3]),
                   (''PClw'', [0]), (''PRain'', [0]), (''PGraupel'', [0]), (''Snow'', [0])]\<rparr>"

definition example_directory :: "(box, variables) directory" where
  "example_directory =
     \<lparr>listdir = Some [''NPR-MIRS-SND_a.nc'', ''NPR-MIRS-IMG_late.nc'', ''README.txt'',
                       ''NPR-MIRS-IMG_east.nc'', ''NPR-MIRS-IMG_a.nc''],
      open_dataset = map_of
        [(''NPR-MIRS-IMG_a.nc'',
            example_granule (timestamp 2021 8 29 14 0 0) (timestamp 2021 8 29 14 10 0) (-95)),
         (''NPR-MIRS-SND_a.nc'',
            example_granule (timestamp 2021 8 29 14 0 0) (timestamp 2021 8 29 14 10 0) (-95)),
         (''NPR-MIRS-IMG_late.nc'',
            example_granule (timestamp 2021 8 30 5 50 0) (timestamp 2021 8 30 6 0 1) (-95)),
         (''NPR-MIRS-IMG_east.nc'',
            example_granule (timestamp 2021 8 29 14 0 0) (timestamp 2021 8 29 14 10 0) 5)]\<rparr>"

text \<open>
  A stand-in for the xarray operations on these datasets: variables are concatenated
  along the scan dimension, dropped or selected by name, and merging pairs the
  variables with the storms.
\<close>

definition example_xr ::
  "(box, variables, ibtracs_storm list, variables \<times> ibtracs_storm list) xarray" where
  "example_xr =
     \<lparr>xr_concat = (\<lambda>dss. case dss of
          [] \<Rightarrow> None
        | g # rest \<Rightarrow>
            Some (g\<lparr>data_vars :=
                    map (\<lambda>(v, xs). (v, concat (map (\<lambda>h. case map_of (data_vars h) v of
                                                           None \<Rightarrow> [] | Some ys \<Rightarrow> ys) dss)))
                        (data_vars g)\<rparr>)),
      xr_drop_vars = (\<lambda>names g. g\<lparr>data_vars := filter (\<lambda>(v, xs). v \<notin> set names) (data_vars g)\<rparr>),
      xr_getitem = (\<lambda>names g.
          if set names \<subseteq> fst ` set (data_vars g)
          then Some (g\<lparr>data_vars := filter (\<lambda>(v, xs). v \<in> set names) (data_vars g)\<rparr>)
          else None),
      xr_merge = (\<lambda>ds_img ds_snd storms. Some (data_vars ds_img @ data_vars ds_snd, storms))\<rparr>"

text \<open>The IBTrACS netCDF side: two storms named IDA in different seasons, and one other.\<close>

definition example_ibtracs :: "ibtracs_storm list" where
  "example_ibtracs =
     [\<lparr>ibtracs_storm.name = ''IDA'', season = 2015, iso_time = [''2015-09-18 12:00:00'', []],
       lat = [Some 12.5, None], lon = [Some (-35.25), None]\<rparr>,
      \<lparr>ibtracs_storm.name = ''IDA'', season = 2021,
       iso_time = [''2021-08-26 12:00:00'', ''2021-08-29 12:00:00'', ''2021-08-29 18:00:00'', []],
       lat = [Some 16.504, Some 29.104, Some 29.896, None],
       lon = [Some (-78.9), Some (-90.196), Some (-90.607), None]\<rparr>,
      \<lparr>ibtracs_storm.name = ''LARRY'', season = 2021, iso_time = [''2021-08-31 18:00:00''],
       lat = [Some 12.005], lon = [Some (-24.8)]\<rparr>]"

text \<open>The files \<open>main\<close> reads, whatever the paths.\<close>

definition example_files :: "(box, variables) files" where
  "example_files =
     \<lparr>read_csv = (\<lambda>path. Inr example_table),
      mirs_directory = (\<lambda>path. example_directory),
      open_ibtracs = (\<lambda>path. Some example_ibtracs)\<rparr>"

section \<open>Longitude normalisation\<close>

lemma rint_near: "\<bar>of_int (rint y) - y\<bar> \<le> 1 / 2"
proof -
  have "of_int \<lfloor>y\<rfloor> \<le> y" "y < of_int \<lfloor>y\<rfloor> + 1"
    by linarith+
  then show ?thesis
    by (auto simp: rint_def Let_def abs_le_iff)
qed

lemma rint_ge: "of_int N \<le> y \<Longrightarrow> N \<le> rint y"
proof -
  assume "of_int N \<le> y"
  then have "N \<le> \<lfloor>y\<rfloor>" by (simp add: le_floor_iff)
  then show ?thesis by (auto simp: rint_def Let_def)
qed

lemma rint_le: "y \<le> of_int N \<Longrightarrow> rint y \<le> N"
proof -
  assume a: "y \<le> of_int N"
  then have f: "\<lfloor>y\<rfloor> \<le> N" by (simp add: floor_le_iff)
  show ?thesis
  proof (cases "y = of_int \<lfloor>y\<rfloor>")
    case True
    then have "y - of_int \<lfloor>y\<rfloor> = 0" by simp
    then show ?thesis using f by (simp add: rint_def Let_def)
  next
    case False
    have "of_int \<lfloor>y\<rfloor> \<le> y" by simp
    with False have "of_int \<lfloor>y\<rfloor> < y" by linarith
    with a have "of_int \<lfloor>y\<rfloor> < (of_int N :: real)" by linarith
    then have "\<lfloor>y\<rfloor> < N" by simp
    then show ?thesis by (auto simp: rint_def Let_def)
  qed
qed

lemma exp_down_le: "exp_down n a e \<le> e"
proof (induction n arbitrary: e)
  case 0
  then show ?case by simp
next
  case (Suc n)
  from Suc [of "e - 1"] show ?case by simp
qed

lemma exp_up_le: "e \<le> k \<Longrightarrow> a < 2 powi (k + 1) \<Longrightarrow> exp_up n a e \<le> k"
proof (induction n arbitrary: e)
  case 0
  then show ?case by simp
next
  case (Suc n)
  show ?case
  proof (cases "a < 2 powi (e + 1)")
    case True
    then show ?thesis using Suc.prems by simp
  next
    case False
    with Suc.prems have "e \<noteq> k" by auto
    with Suc.prems have "e + 1 \<le> k" by simp
    from Suc.IH [OF this Suc.prems(2)] False show ?thesis by simp
  qed
qed

lemma binary_exponent_le: "0 \<le> k \<Longrightarrow> a < 2 powi (k + 1) \<Longrightarrow> binary_exponent a \<le> k"
  using exp_up_le [of 0 k a 1023] exp_down_le [of 1021 a "- 1"]
  by (auto simp: binary_exponent_def)

lemma scaled_near:
  fixes r p x :: real
  assumes "\<bar>r - x / p\<bar> \<le> 1 / 2" "0 < p"
  shows "\<bar>r * p - x\<bar> \<le> p / 2"
proof -
  have "r * p - x = (r - x / p) * p"
    using assms(2) by (simp add: field_simps)
  then have "\<bar>r * p - x\<bar> = \<bar>r - x / p\<bar> * p"
    using assms(2) by (simp add: abs_mult)
  also have "\<dots> \<le> 1 / 2 * p"
    using assms by (intro mult_right_mono) simp_all
  finally show ?thesis by simp
qed

lemma to_double_error:
  assumes "0 \<le> k" "\<bar>x\<bar> < 2 powi (k + 1)"
  shows "\<bar>to_double x - x\<bar> \<le> 2 powi (k - 53)"
proof -
  define q where "q = binary_exponent \<bar>x\<bar> - 52"
  have q: "q \<le> k - 52"
    unfolding q_def using binary_exponent_le [OF assms] by simp
  have p: "(0::real) < 2 powi q" by simp
  have t: "to_double x = of_int (rint (x / 2 powi q)) * 2 powi q"
    by (simp add: to_double_def Let_def q_def)
  have e: "\<bar>to_double x - x\<bar> \<le> 2 powi q / 2"
    unfolding t by (rule scaled_near [OF rint_near p])
  have "(2 powi q / 2 :: real) = 2 powi (q - 1)"
    by (simp add: power_int_diff)
  also have "\<dots> \<le> 2 powi (k - 53)"
    using q by (intro power_int_increasing) simp_all
  finally show ?thesis using e by linarith
qed

lemma to_double_le:
  assumes "\<bar>x\<bar> < 2 powi 53" "x \<le> of_int B"
  shows "to_double x \<le> of_int B"
proof -
  define q where "q = binary_exponent \<bar>x\<bar> - 52"
  have q: "q \<le> 0"
    unfolding q_def using binary_exponent_le [of 52 "\<bar>x\<bar>"] assms(1) by simp
  have p: "(0::real) < 2 powi q" by simp
  have t: "to_double x = of_int (rint (x / 2 powi q)) * 2 powi q"
    by (simp add: to_double_def Let_def q_def)
  have i: "of_int B / 2 powi q = (of_int (B * 2 ^ nat (- q)) :: real)"
    using q by (simp add: power_int_def field_simps)
  have "x / 2 powi q \<le> of_int B / 2 powi q"
    using assms(2) p by (simp add: divide_right_mono)
  then have "rint (x / 2 powi q) \<le> B * 2 ^ nat (- q)"
    unfolding i by (rule rint_le)
  then have "(of_int (rint (x / 2 powi q)) :: real) \<le> of_int (B * 2 ^ nat (- q))"
    by (simp only: of_int_le_iff)
  then have "(of_int (rint (x / 2 powi q)) :: real) \<le> of_int B / 2 powi q"
    unfolding i .
  then show ?thesis
    unfolding t using p by (simp add: pos_le_divide_eq)
qed

lemma to_double_ge:
  assumes "\<bar>x\<bar> < 2 powi 53" "of_int B \<le> x"
  shows "of_int B \<le> to_double x"
proof -
  define q where "q = binary_exponent \<bar>x\<bar> - 52"
  have q: "q \<le> 0"
    unfolding q_def using binary_exponent_le [of 52 "\<bar>x\<bar>"] assms(1) by simp
  have p: "(0::real) < 2 powi q" by simp
  have t: "to_double x = of_int (rint (x / 2 powi q)) * 2 powi q"
    by (simp add: to_double_def Let_def q_def)
  have i: "of_int B / 2 powi q = (of_int (B * 2 ^ nat (- q)) :: real)"
    using q by (simp add: power_int_def field_simps)
  have "of_int B / 2 powi q \<le> x / 2 powi q"
    using assms(2) p by (simp add: divide_right_mono)
  then have "B * 2 ^ nat (- q) \<le> rint (x / 2 powi q)"
    unfolding i by (rule rint_ge)
  then have "(of_int (B * 2 ^ nat (- q)) :: real) \<le> of_int (rint (x / 2 powi q))"
    by (simp only: of_int_le_iff)
  then have "of_int B / 2 powi q \<le> (of_int (rint (x / 2 powi q)) :: real)"
    unfolding i .
  then show ?thesis
    unfolding t using p by (simp add: pos_divide_le_eq)
qed

lemma c_fmod_360:
  "(0 \<le> x \<longrightarrow> 0 \<le> c_fmod x 360 \<and> c_fmod x 360 < 360) \<and>
   (x < 0 \<longrightarrow> - 360 < c_fmod x 360 \<and> c_fmod x 360 \<le> 0) \<and>
   (\<exists>n::int. c_fmod x 360 = x + 360 * of_int n)"
proof -
  have f: "360 * of_int \<lfloor>x / 360\<rfloor> \<le> x" "x < 360 * of_int \<lfloor>x / 360\<rfloor> + 360"
    by linarith+
  have c: "x \<le> 360 * of_int \<lceil>x / 360\<rceil>" "360 * of_int \<lceil>x / 360\<rceil> - 360 < x"
    by linarith+
  have a: "0 \<le> c_fmod x 360 \<and> c_fmod x 360 < 360" if "0 \<le> x"
  proof -
    from that have "c_fmod x 360 = x - 360 * of_int \<lfloor>x / 360\<rfloor>"
      by (simp add: c_fmod_def)
    then show ?thesis using f by linarith
  qed
  have b: "- 360 < c_fmod x 360 \<and> c_fmod x 360 \<le> 0" if "x < 0"
  proof -
    from that have "c_fmod x 360 = x - 360 * of_int \<lceil>x / 360\<rceil>"
      by (simp add: c_fmod_def)
    then show ?thesis using c by linarith
  qed
  have "c_fmod x 360 = x + 360 * of_int (- (if 0 \<le> x / 360 then \<lfloor>x / 360\<rfloor> else \<lceil>x / 360\<rceil>))"
    by (simp add: c_fmod_def)
  then have "\<exists>n::int. c_fmod x 360 = x + 360 * of_int n" by (rule exI)
  with a b show ?thesis by blast
qed

lemma py_mod_360:
  "0 \<le> py_mod x 360 \<and> py_mod x 360 \<le> 360 \<and>
   (0 \<le> x \<longrightarrow> py_mod x 360 < 360 \<and> (\<exists>n::int. py_mod x 360 = x + 360 * of_int n)) \<and>
   (\<exists>n::int. \<bar>py_mod x 360 - (x + 360 * of_int n)\<bar> \<le> 1 / 2 ^ 45)"
proof -
  define m where "m = c_fmod x 360"
  from c_fmod_360 [of x] obtain n :: int where
    pos: "0 \<le> x \<longrightarrow> 0 \<le> m \<and> m < 360"
    and neg: "x < 0 \<longrightarrow> - 360 < m \<and> m \<le> 0"
    and n: "m = x + 360 * of_int n"
    unfolding m_def by blast
  show ?thesis
  proof (cases "m < 0")
    case False
    then have p: "py_mod x 360 = m"
      by (simp add: py_mod_def m_def [symmetric])
    from False pos neg have r: "0 \<le> m" "m < 360" "m \<le> 360"
      by (cases "0 \<le> x"; auto)+
    have ex: "\<exists>n::int. m = x + 360 * of_int n"
      using n by (rule exI)
    have "\<bar>m - (x + 360 * of_int n)\<bar> \<le> 1 / 2 ^ 45"
      using n by simp
    then have ap: "\<exists>n::int. \<bar>m - (x + 360 * of_int n)\<bar> \<le> 1 / 2 ^ 45"
      by (rule exI)
    from r ex ap show ?thesis unfolding p by blast
  next
    case True
    then have p: "py_mod x 360 = to_double (m + 360)"
      by (simp add: py_mod_def m_def [symmetric])
    from True pos neg have r: "x < 0" "- 360 < m"
      by (cases "0 \<le> x"; auto)+
    with True have b: "0 \<le> m + 360" "m + 360 \<le> 360" "\<bar>m + 360\<bar> < 2 powi 53"
      "\<bar>m + 360\<bar> < 2 powi (8 + 1)"
      by simp_all
    have lo: "0 \<le> to_double (m + 360)"
      using to_double_ge [OF b(3), of 0] b(1) by simp
    have hi: "to_double (m + 360) \<le> 360"
      using to_double_le [OF b(3), of 360] b(2) by simp
    have "\<bar>to_double (m + 360) - (m + 360)\<bar> \<le> 2 powi (8 - 53)"
      by (rule to_double_error [OF _ b(4)]) simp
    then have "\<bar>to_double (m + 360) - (x + 360 * of_int (n + 1))\<bar> \<le> 1 / 2 ^ 45"
      unfolding n by (simp add: algebra_simps power_int_minus)
    then have ap: "\<exists>n::int. \<bar>to_double (m + 360) - (x + 360 * of_int n)\<bar> \<le> 1 / 2 ^ 45"
      by (rule exI)
    from lo hi ap r(1) show ?thesis unfolding p by auto
  qed
qed

text \<open>
  C7, as amended. For every finite longitude \<open>L\<close> the value returned lies in
  \<open>[0, 360)\<close>, and it is congruent to \<open>L\<close> modulo 360 up to the rounding of the two
  float sums: it differs from some \<open>L + 360 k\<close> by at most \<open>3 / 2^45\<close>.
\<close>

theorem lon_to_360_range_and_error:
  "0 \<le> lon_to_360 L \<and> lon_to_360 L < 360 \<and>
   (\<exists>k::int. \<bar>lon_to_360 L - (L + 360 * of_int k)\<bar> \<le> 3 / 2 ^ 45)"
proof -
  define m1 where "m1 = py_mod L 360"
  define s where "s = to_double (360 + m1)"
  from py_mod_360 [of L] obtain n1 :: int where
    m1: "0 \<le> m1" "m1 \<le> 360"
    and e1: "\<bar>m1 - (L + 360 * of_int n1)\<bar> \<le> 1 / 2 ^ 45"
    unfolding m1_def by blast
  from m1 have b: "\<bar>360 + m1\<bar> < 2 powi 53" "\<bar>360 + m1\<bar> < 2 powi (9 + 1)"
    by simp_all
  have "360 \<le> s"
    unfolding s_def using to_double_ge [OF b(1), of 360] m1 by simp
  then have s0: "0 \<le> s" by simp
  have "\<bar>s - (360 + m1)\<bar> \<le> 2 powi (9 - 53)"
    unfolding s_def by (rule to_double_error [OF _ b(2)]) simp
  then have e2: "\<bar>s - (360 + m1)\<bar> \<le> 2 / 2 ^ 45"
    by (simp add: power_int_minus)
  from py_mod_360 [of s] s0 obtain n2 :: int where
    r: "0 \<le> py_mod s 360" "py_mod s 360 < 360"
    and e3: "py_mod s 360 = s + 360 * of_int n2"
    by blast
  have l: "lon_to_360 L = py_mod s 360"
    by (simp add: lon_to_360_def s_def m1_def)
  have "lon_to_360 L - (L + 360 * of_int (n1 + n2 + 1)) =
      (s - (360 + m1)) + (m1 - (L + 360 * of_int n1))"
    unfolding l e3 by (simp add: algebra_simps)
  then have "\<bar>lon_to_360 L - (L + 360 * of_int (n1 + n2 + 1))\<bar> \<le> 3 / 2 ^ 45"
    using e1 e2 by linarith
  then have "\<exists>k::int. \<bar>lon_to_360 L - (L + 360 * of_int k)\<bar> \<le> 3 / 2 ^ 45"
    by (rule exI)
  with r show ?thesis unfolding l by blast
qed

text \<open>
  The congruence is not exact. At the double nearest -90.2 the code returns
  269.79999999999995, which is 360 less \<open>3 / 2^46\<close> above its argument; at the double
  nearest \<open>-1e-20\<close> it returns 0.
\<close>

lemma lon_to_360_tiny: "lon_to_360 (to_double (- 1 / 10 ^ 20)) = 0"
  by code_simp

theorem lon_to_360_not_congruent:
  "lon_to_360 (to_double (- 90.2)) = 1186592948695859 / 4398046511104 \<and>
   to_double (- 90.2) = - 6347260724825293 / 70368744177664 \<and>
   \<not> (0 \<le> lon_to_360 (to_double (- 90.2)) \<and> lon_to_360 (to_double (- 90.2)) < 360 \<and>
      (\<exists>k::int. lon_to_360 (to_double (- 90.2)) = to_double (- 90.2) + 360 * of_int k))"
proof -
  have r: "lon_to_360 (to_double (- 90.2)) = 1186592948695859 / 4398046511104"
    by code_simp
  have d: "to_double (- 90.2) = - 6347260724825293 / 70368744177664"
    by code_simp
  have "lon_to_360 (to_double (- 90.2)) \<noteq> to_double (- 90.2) + 360 * of_int k" for k :: int
  proof
    assume e: "lon_to_360 (to_double (- 90.2)) = to_double (- 90.2) + 360 * of_int k"
    from e [unfolded r, unfolded d] have "(0::real) < of_int k" "of_int k < (1::real)"
      by linarith+
    then have "0 < k" "k < 1" by simp_all
    then show False by linarith
  qed
  with r d show ?thesis by blast
qed

section \<open>Track loader\<close>

lemma get_storm_track_Inr:
  assumes "get_storm_track nm yr (Inr table) flt = Inr res"
  shows "1678 \<le> yr \<and> yr \<le> 2261 \<and>
    res = map add_lon_columns
            (filter (\<lambda>r. NAME r = nm \<and> timestamp yr 1 1 0 0 0 \<le> ISO_TIME r \<and>
                         ISO_TIME r < timestamp (yr + 1) 1 1 0 0 0 \<and>
                         (flt \<longrightarrow> WMO_WIND r \<noteq> '' '' \<and> WMO_PRES r \<noteq> '' ''))
               (drop 1 table))"
  using assms
  by (auto simp: get_storm_track_def to_datetime_year_def Let_def 
      split: if_splits intro!: arg_cong[where f="map add_lon_columns"] filter_cong)

lemma get_storm_track_total:
  assumes "1678 \<le> yr" "yr \<le> 2261"
  shows "get_storm_track nm yr (Inr table) flt =
    Inr (map add_lon_columns
            (filter (\<lambda>r. NAME r = nm \<and> timestamp yr 1 1 0 0 0 \<le> ISO_TIME r \<and>
                         ISO_TIME r < timestamp (yr + 1) 1 1 0 0 0 \<and>
                         (flt \<longrightarrow> WMO_WIND r \<noteq> '' '' \<and> WMO_PRES r \<noteq> '' ''))
               (drop 1 table)))"
  using assms
  by (auto simp: get_storm_track_def to_datetime_year_def Let_def 
      split: if_splits intro!: arg_cong[where f="map add_lon_columns"] filter_cong)

lemma get_storm_track_Inl: "get_storm_track nm yr (Inl e) flt = Inl e"
  by (simp add: get_storm_track_def)

lemma add_lon_columns_inj: "add_lon_columns r = add_lon_columns r' \<Longrightarrow> r = r'"
  by (cases r; cases r') (simp add: add_lon_columns_def)

lemma add_lon_columns_mem:
  "add_lon_columns r \<in> set (map add_lon_columns xs) \<longleftrightarrow> r \<in> set xs"
  using add_lon_columns_inj by auto

lemma add_lon_columns_fields:
  "NAME (add_lon_columns r) = NAME r" "ISO_TIME (add_lon_columns r) = ISO_TIME r"
  "WMO_WIND (add_lon_columns r) = WMO_WIND r" "WMO_PRES (add_lon_columns r) = WMO_PRES r"
  "LAT (add_lon_columns r) = LAT r" "LON_180 (add_lon_columns r) = LON r"
  "LON (add_lon_columns r) = lon_to_360 (to_double (LON r))"
  by (simp_all add: add_lon_columns_def)



text \<open>
  C5. With the missing-field filter on, the result is the result with the filter off
  less every row whose wind or pressure field is blank (the text \<open>" "\<close>); with the
  filter off every row matching name and year is retained, blank or not.
\<close>

theorem wmo_filter_drops_blank_rows:
  assumes "get_storm_track nm yr csv True = Inr kept"
  shows "\<exists>table all_rows. csv = Inr table \<and> get_storm_track nm yr csv False = Inr all_rows \<and>
     kept = filter (\<lambda>r. WMO_WIND r \<noteq> '' '' \<and> WMO_PRES r \<noteq> '' '') all_rows \<and>
     (\<forall>r\<in>set (drop 1 table).
        NAME r = nm \<and> timestamp yr 1 1 0 0 0 \<le> ISO_TIME r \<and>
        ISO_TIME r < timestamp (yr + 1) 1 1 0 0 0 \<longrightarrow>
        add_lon_columns r \<in> set all_rows \<and>
        (add_lon_columns r \<in> set kept \<longleftrightarrow> WMO_WIND r \<noteq> '' '' \<and> WMO_PRES r \<noteq> '' ''))"
proof -
  obtain table where csv: "csv = Inr table"
    using assms by (cases csv) (simp_all add: get_storm_track_Inl)
  let ?inyear = "\<lambda>r. NAME r = nm \<and> timestamp yr 1 1 0 0 0 \<le> ISO_TIME r \<and>
                         ISO_TIME r < timestamp (yr + 1) 1 1 0 0 0"
  let ?full = "\<lambda>r::raw_row. WMO_WIND r \<noteq> '' '' \<and> WMO_PRES r \<noteq> '' ''"
  let ?fullt = "\<lambda>r::track_row. WMO_WIND r \<noteq> '' '' \<and> WMO_PRES r \<noteq> '' ''"
  from get_storm_track_Inr [OF assms [unfolded csv]]
  have yr: "1678 \<le> yr" "yr \<le> 2261"
    and kept: "kept = map add_lon_columns (filter (\<lambda>r. ?inyear r \<and> ?full r) (drop 1 table))"
    by simp_all
  define all_rows where "all_rows = map add_lon_columns (filter ?inyear (drop 1 table))"
  have off: "get_storm_track nm yr csv False = Inr all_rows"
    unfolding csv all_rows_def using get_storm_track_total [OF yr, of nm table False] by simp
  have k: "kept = filter ?fullt all_rows"
    unfolding kept all_rows_def
    by (simp add: filter_map o_def add_lon_columns_fields conj_commute)
  have m: "add_lon_columns r \<in> set all_rows \<and>
        (add_lon_columns r \<in> set kept \<longleftrightarrow> ?full r)"
    if "r \<in> set (drop 1 table)" "?inyear r" for r
    using that unfolding kept all_rows_def add_lon_columns_mem by simp
  from csv off k m show ?thesis by blast
qed

theorem wmo_filter_drops_blank_rows_witness:
  "get_storm_track ''IDA'' 2021 (Inr example_table) True = Inr [hd example_track] \<and>
   (\<exists>all_rows. get_storm_track ''IDA'' 2021 (Inr example_table) False = Inr all_rows \<and>
     [hd example_track] = filter (\<lambda>r. WMO_WIND r \<noteq> '' '' \<and> WMO_PRES r \<noteq> '' '') all_rows)"
proof -
  have h: "get_storm_track ''IDA'' 2021 (Inr example_table) True = Inr [hd example_track]"
    by code_simp
  from wmo_filter_drops_blank_rows [OF h] h show ?thesis by blast
qed

section \<open>Granule matcher\<close>

lemma scan_directory_Inr:
  "scan_directory pw d la lo tb ta req files m = Inr m' \<Longrightarrow>
   m' = m \<union> {f \<in> set files. suffix ''.nc'' f \<and>
          (\<exists>ds. open_dataset d f = Some ds \<and> granule_overlaps_track_point pw ds la lo tb ta req)}"
proof (induction files arbitrary: m)
  case Nil
  then show ?case by simp
next
  case (Cons f files)
  show ?case
  proof (cases "suffix ''.nc'' f")
    case False
    with Cons.prems have "scan_directory pw d la lo tb ta req files m = Inr m'" by simp
    from Cons.IH [OF this] False show ?thesis by auto
  next
    case True
    with Cons.prems obtain ds where ds: "open_dataset d f = Some ds"
      by (auto split: option.splits)
    let ?m = "if granule_overlaps_track_point pw ds la lo tb ta req then insert f m else m"
    from Cons.prems True ds have "scan_directory pw d la lo tb ta req files ?m = Inr m'"
      by simp
    from Cons.IH [OF this] True ds show ?thesis by auto
  qed
qed

lemma scan_track_Inr:
  "scan_track pw track d files W req ixs m = Inr m' \<Longrightarrow>
   m' = m \<union> {f \<in> set files. suffix ''.nc'' f \<and> (\<exists>i\<in>set ixs. point_matches pw track d W req f i)}"
proof (induction ixs arbitrary: m)
  case Nil
  then show ?case by simp
next
  case (Cons i ixs)
  from Cons.prems obtain row where row: "iloc track i = Inr row"
    by (auto split: sum.splits)
  let ?tb = "ISO_TIME row - to_timedelta_h W" and ?ta = "ISO_TIME row + to_timedelta_h W"
  from Cons.prems row obtain m1 where
    m1: "scan_directory pw d (LAT row) (LON_180 row) ?tb ?ta req files m = Inr m1"
    and rest: "scan_track pw track d files W req ixs m1 = Inr m'"
    by (auto simp: Let_def split: sum.splits)
  have pm: "point_matches pw track d W req f i \<longleftrightarrow>
      (\<exists>ds. open_dataset d f = Some ds \<and>
        granule_overlaps_track_point pw ds (LAT row) (LON_180 row) ?tb ?ta req)" for f
    by (auto simp: point_matches_def row split: option.splits)
  from scan_directory_Inr [OF m1] Cons.IH [OF rest] show ?case
    by (auto simp: pm)
qed

lemma find_mirs_files_Inr:
  assumes "find_mirs_files pw track d W req ixs = Inr (imgs, snds)"
  shows "\<exists>files. listdir d = Some files \<and>
     finite {f \<in> set files. suffix ''.nc'' f \<and>
               (\<exists>i\<in>set (scanned_indices track ixs). point_matches pw track d W req f i)} \<and>
     imgs = sorted_list_of_set {f \<in> set files. prefix ''NPR-MIRS-IMG'' f \<and> suffix ''.nc'' f \<and>
               (\<exists>i\<in>set (scanned_indices track ixs). point_matches pw track d W req f i)} \<and>
     snds = sorted_list_of_set {f \<in> set files. prefix ''NPR-MIRS-SND'' f \<and> suffix ''.nc'' f \<and>
               (\<exists>i\<in>set (scanned_indices track ixs). point_matches pw track d W req f i)}"
proof -
  from assms obtain files where files: "listdir d = Some files"
    by (auto simp: find_mirs_files_def split: option.splits)
  from assms files obtain m where
    m: "scan_track pw track d files W req (scanned_indices track ixs) {} = Inr m"
    and img: "imgs = sorted_list_of_set (Set.filter (prefix ''NPR-MIRS-IMG'') m)"
    and sn: "snds = sorted_list_of_set (Set.filter (prefix ''NPR-MIRS-SND'') m)"
    by (auto simp: find_mirs_files_def Let_def split: sum.splits)
  note mm = scan_track_Inr [OF m]
  have "Set.filter (prefix ''NPR-MIRS-IMG'') m = {f \<in> set files. prefix ''NPR-MIRS-IMG'' f \<and> suffix ''.nc'' f \<and>
               (\<exists>i\<in>set (scanned_indices track ixs). point_matches pw track d W req f i)}"
    unfolding mm by auto
  moreover have "Set.filter (prefix ''NPR-MIRS-SND'') m = {f \<in> set files. prefix ''NPR-MIRS-SND'' f \<and> suffix ''.nc'' f \<and>
               (\<exists>i\<in>set (scanned_indices track ixs). point_matches pw track d W req f i)}"
    unfolding mm by auto
  ultimately show ?thesis using files img sn by simp
qed

lemma find_mirs_files_sets:
  assumes "find_mirs_files pw track d W req ixs = Inr (imgs, snds)"
  shows "\<exists>files. listdir d = Some files \<and>
     set imgs = {f \<in> set files. prefix ''NPR-MIRS-IMG'' f \<and> suffix ''.nc'' f \<and>
               (\<exists>i\<in>set (scanned_indices track ixs). point_matches pw track d W req f i)} \<and>
     set snds = {f \<in> set files. prefix ''NPR-MIRS-SND'' f \<and> suffix ''.nc'' f \<and>
               (\<exists>i\<in>set (scanned_indices track ixs). point_matches pw track d W req f i)} \<and>
     sorted imgs \<and> distinct imgs \<and> sorted snds \<and> distinct snds"
proof -
  from find_mirs_files_Inr [OF assms] obtain files where
    "listdir d = Some files" 
    "imgs = sorted_list_of_set {f \<in> set files. prefix ''NPR-MIRS-IMG'' f \<and> suffix ''.nc'' f \<and>
               (\<exists>i\<in>set (scanned_indices track ixs). point_matches pw track d W req f i)}"
    "snds = sorted_list_of_set {f \<in> set files. prefix ''NPR-MIRS-SND'' f \<and> suffix ''.nc'' f \<and>
               (\<exists>i\<in>set (scanned_indices track ixs). point_matches pw track d W req f i)}"
    by blast
  then show ?thesis by simp
qed

lemma point_matches_iff:
  "point_matches pw track d W req f i \<longleftrightarrow>
     (\<exists>row g. iloc track i = Inr row \<and> open_dataset d f = Some g \<and>
        granule_overlaps_track_point pw g (LAT row) (LON_180 row)
          (ISO_TIME row - to_timedelta_h W) (ISO_TIME row + to_timedelta_h W) req)"
  by (auto simp: point_matches_def split: sum.splits option.splits)

lemma overlaps_time:
  "granule_overlaps_track_point pw g la lo tb ta req \<Longrightarrow>
   tb \<le> time_coverage_start g \<and> time_coverage_end g \<le> ta"
  by (auto simp: granule_overlaps_track_point_def Let_def split: if_splits)

lemma overlaps_dateline:
  "granule_overlaps_track_point pw g la lo tb ta True \<Longrightarrow>
   geospatial_first_scanline_first_fov_lon g < 0"
  by (auto simp: granule_overlaps_track_point_def Let_def split: if_splits)

lemma overlaps_no_dateline:
  "granule_overlaps_track_point pw g la lo tb ta False \<longleftrightarrow>
   tb \<le> time_coverage_start g \<and> time_coverage_end g \<le> ta \<and> pw (lo, la) (geospatial_bounds g)"
  by (auto simp: granule_overlaps_track_point_def Let_def)

text \<open>The definitions unfolded to evaluate the overlap test on the example granules.\<close>

lemmas overlap_eval = granule_overlaps_track_point_def example_granule_def example_within_def
  timestamp_def days_from_civil_def to_timedelta_h_def Let_def

text \<open>
  C1. A granule passes the time test for a track point with timestamp \<open>t\<close> and
  half-width \<open>W\<close> hours only if \<open>t - W \<le> start\<close> and \<open>end \<le> t + W\<close>; one whose
  coverage reaches a second (or any amount) past either bound does not match; and every
  file \<open>find_mirs_files\<close> returns has its coverage inside the window of one of the
  track points scanned.
\<close>

theorem granule_time_containment:
  "(granule_overlaps_track_point pw g la lo (t - to_timedelta_h W) (t + to_timedelta_h W) req \<longrightarrow>
      t - W * 3600000000000 \<le> time_coverage_start g \<and>
      time_coverage_end g \<le> t + W * 3600000000000) \<and>
   (time_coverage_start g \<le> t - W * 3600000000000 - 1000000000 \<or>
    t + W * 3600000000000 + 1000000000 \<le> time_coverage_end g \<longrightarrow>
      \<not> granule_overlaps_track_point pw g la lo (t - to_timedelta_h W) (t + to_timedelta_h W) req) \<and>
   (find_mirs_files pw track d W req ixs = Inr (imgs, snds) \<longrightarrow>
      (\<forall>f\<in>set imgs \<union> set snds. \<exists>i\<in>set (scanned_indices track ixs). \<exists>row g'.
          iloc track i = Inr row \<and> open_dataset d f = Some g' \<and>
          ISO_TIME row - W * 3600000000000 \<le> time_coverage_start g' \<and>
          time_coverage_end g' \<le> ISO_TIME row + W * 3600000000000))"
proof -
  have a: "t - W * 3600000000000 \<le> time_coverage_start g \<and>
      time_coverage_end g \<le> t + W * 3600000000000"
    if "granule_overlaps_track_point pw g la lo (t - to_timedelta_h W) (t + to_timedelta_h W) req"
    using overlaps_time [OF that] by (simp add: to_timedelta_h_def)
  have b: "\<not> granule_overlaps_track_point pw g la lo (t - to_timedelta_h W) (t + to_timedelta_h W) req"
    if "time_coverage_start g \<le> t - W * 3600000000000 - 1000000000 \<or>
        t + W * 3600000000000 + 1000000000 \<le> time_coverage_end g"
    using that a by fastforce
  have c: "\<exists>i\<in>set (scanned_indices track ixs). \<exists>row g'.
          iloc track i = Inr row \<and> open_dataset d f = Some g' \<and>
          ISO_TIME row - W * 3600000000000 \<le> time_coverage_start g' \<and>
          time_coverage_end g' \<le> ISO_TIME row + W * 3600000000000"
    if r: "find_mirs_files pw track d W req ixs = Inr (imgs, snds)"
      and f: "f \<in> set imgs \<union> set snds" for f
  proof -
    from find_mirs_files_sets [OF r] f
    obtain i where i: "i \<in> set (scanned_indices track ixs)"
      and pm: "point_matches pw track d W req f i"
      by auto
    from pm obtain row g' where "iloc track i = Inr row" "open_dataset d f = Some g'"
      and ov: "granule_overlaps_track_point pw g' (LAT row) (LON_180 row)
          (ISO_TIME row - to_timedelta_h W) (ISO_TIME row + to_timedelta_h W) req"
      unfolding point_matches_iff by blast
    moreover from overlaps_time [OF ov]
    have "ISO_TIME row - W * 3600000000000 \<le> time_coverage_start g' \<and>
          time_coverage_end g' \<le> ISO_TIME row + W * 3600000000000"
      by (simp add: to_timedelta_h_def)
    ultimately show ?thesis using i by blast
  qed
  from a b c show ?thesis by blast
qed

theorem granule_time_containment_witness:
  "granule_overlaps_track_point example_within
      (example_granule (timestamp 2021 8 29 14 0 0) (timestamp 2021 8 29 14 10 0) (-95))
      29.1 (-90.2)
      (timestamp 2021 8 29 12 0 0 - to_timedelta_h 12)
      (timestamp 2021 8 29 12 0 0 + to_timedelta_h 12) True \<and>
   timestamp 2021 8 29 12 0 0 - 12 * 3600000000000 \<le> timestamp 2021 8 29 14 0 0 \<and>
   timestamp 2021 8 29 14 10 0 \<le> timestamp 2021 8 29 12 0 0 + 12 * 3600000000000 \<and>
   timestamp 2021 8 29 18 0 0 + 12 * 3600000000000 + 1000000000 \<le> timestamp 2021 8 30 6 0 1 \<and>
   \<not> granule_overlaps_track_point example_within
      (example_granule (timestamp 2021 8 30 5 50 0) (timestamp 2021 8 30 6 0 1) (-95))
      29.9 (-90.6)
      (timestamp 2021 8 29 18 0 0 - to_timedelta_h 12)
      (timestamp 2021 8 29 18 0 0 + to_timedelta_h 12) True"
proof -
  have h1: "granule_overlaps_track_point example_within
      (example_granule (timestamp 2021 8 29 14 0 0) (timestamp 2021 8 29 14 10 0) (-95))
      29.1 (-90.2)
      (timestamp 2021 8 29 12 0 0 - to_timedelta_h 12)
      (timestamp 2021 8 29 12 0 0 + to_timedelta_h 12) True"
    by (simp add: overlap_eval)
  have h2: "timestamp 2021 8 29 18 0 0 + 12 * 3600000000000 + 1000000000
      \<le> time_coverage_end (example_granule (timestamp 2021 8 30 5 50 0) (timestamp 2021 8 30 6 0 1) (-95))"
    by (simp add: overlap_eval)
  have e: "time_coverage_start (example_granule a b c) = a"
          "time_coverage_end (example_granule a b c) = b" for a b c
    by (simp_all add: example_granule_def)
  from granule_time_containment [of example_within
      "example_granule (timestamp 2021 8 29 14 0 0) (timestamp 2021 8 29 14 10 0) (-95)"
      "29.1" "-90.2" "timestamp 2021 8 29 12 0 0" 12 True] h1
  have c1: "timestamp 2021 8 29 12 0 0 - 12 * 3600000000000 \<le> timestamp 2021 8 29 14 0 0 \<and>
   timestamp 2021 8 29 14 10 0 \<le> timestamp 2021 8 29 12 0 0 + 12 * 3600000000000"
    unfolding e by blast
  from granule_time_containment [of example_within
      "example_granule (timestamp 2021 8 30 5 50 0) (timestamp 2021 8 30 6 0 1) (-95)"
      "29.9" "-90.6" "timestamp 2021 8 29 18 0 0" 12 True] h2
  have c2: "\<not> granule_overlaps_track_point example_within
      (example_granule (timestamp 2021 8 30 5 50 0) (timestamp 2021 8 30 6 0 1) (-95))
      29.9 (-90.6)
      (timestamp 2021 8 29 18 0 0 - to_timedelta_h 12)
      (timestamp 2021 8 29 18 0 0 + to_timedelta_h 12) True"
    by blast
  from h1 c1 h2 c2 show ?thesis unfolding e by blast
qed

text \<open>
  C8. The two lists \<open>find_mirs_files\<close> returns are sorted and free of duplicates, and
  hold exactly the \<open>.nc\<close> files of the directory with the imagery (sounding) prefix
  that match at one or more of the track points scanned: a file matching several track
  points appears once.
\<close>

theorem find_mirs_files_sorted_unique:
  assumes "find_mirs_files pw track d W req ixs = Inr (imgs, snds)"
  shows "sorted imgs \<and> distinct imgs \<and> sorted snds \<and> distinct snds \<and>
     (\<exists>files. listdir d = Some files \<and>
        set imgs = {f \<in> set files. prefix ''NPR-MIRS-IMG'' f \<and> suffix ''.nc'' f \<and>
                      (\<exists>i\<in>set (scanned_indices track ixs). point_matches pw track d W req f i)} \<and>
        set snds = {f \<in> set files. prefix ''NPR-MIRS-SND'' f \<and> suffix ''.nc'' f \<and>
                      (\<exists>i\<in>set (scanned_indices track ixs). point_matches pw track d W req f i)})"
  using find_mirs_files_sets [OF assms] by blast

theorem find_mirs_files_sorted_unique_witness:
  "find_mirs_files example_within example_track example_directory 12 False None =
     Inr ([''NPR-MIRS-IMG_a.nc'', ''NPR-MIRS-IMG_east.nc''], [''NPR-MIRS-SND_a.nc'']) \<and>
   point_matches example_within example_track example_directory 12 False ''NPR-MIRS-IMG_a.nc'' 0 \<and>
   point_matches example_within example_track example_directory 12 False ''NPR-MIRS-IMG_a.nc'' 1 \<and>
   sorted [''NPR-MIRS-IMG_a.nc'', ''NPR-MIRS-IMG_east.nc''] \<and>
   distinct [''NPR-MIRS-IMG_a.nc'', ''NPR-MIRS-IMG_east.nc'']"
proof -
  have h: "find_mirs_files example_within example_track example_directory 12 False None =
     Inr ([''NPR-MIRS-IMG_a.nc'', ''NPR-MIRS-IMG_east.nc''], [''NPR-MIRS-SND_a.nc''])"
    by code_simp
  have p0: "point_matches example_within example_track example_directory 12 False ''NPR-MIRS-IMG_a.nc'' 0"
    by code_simp
  have p1: "point_matches example_within example_track example_directory 12 False ''NPR-MIRS-IMG_a.nc'' 1"
    by code_simp
  from find_mirs_files_sorted_unique [OF h] h p0 p1 show ?thesis by blast
qed

text \<open>
  C6. With the dateline option on, a granule whose first-scan longitude is \<open>\<ge> 0\<close> never
  passes the overlap test, so every file returned has a negative one; with the option
  off the test is the time and the spatial condition alone, and a \<open>.nc\<close> file of the
  directory that meets both at a scanned track point is returned in the list of its
  prefix, whatever its first-scan longitude.
\<close>

theorem dateline_filter:
  "(0 \<le> geospatial_first_scanline_first_fov_lon g \<longrightarrow>
      \<not> granule_overlaps_track_point pw g la lo tb ta True) \<and>
   (granule_overlaps_track_point pw g la lo tb ta False \<longleftrightarrow>
      tb \<le> time_coverage_start g \<and> time_coverage_end g \<le> ta \<and> pw (lo, la) (geospatial_bounds g)) \<and>
   (find_mirs_files pw track d W True ixs = Inr (imgs, snds) \<longrightarrow>
      (\<forall>f\<in>set imgs \<union> set snds.
         \<exists>g'. open_dataset d f = Some g' \<and> geospatial_first_scanline_first_fov_lon g' < 0)) \<and>
   (find_mirs_files pw track d W False ixs = Inr (imgs, snds) \<and>
    listdir d = Some files \<and> f \<in> set files \<and> suffix ''.nc'' f \<and>
    i \<in> set (scanned_indices track ixs) \<and> iloc track i = Inr row \<and> open_dataset d f = Some g' \<and>
    ISO_TIME row - to_timedelta_h W \<le> time_coverage_start g' \<and>
    time_coverage_end g' \<le> ISO_TIME row + to_timedelta_h W \<and>
    pw (LON_180 row, LAT row) (geospatial_bounds g') \<longrightarrow>
      (prefix ''NPR-MIRS-IMG'' f \<longrightarrow> f \<in> set imgs) \<and>
      (prefix ''NPR-MIRS-SND'' f \<longrightarrow> f \<in> set snds))"
proof -
  have a: "\<not> granule_overlaps_track_point pw g la lo tb ta True"
    if "0 \<le> geospatial_first_scanline_first_fov_lon g"
    using that overlaps_dateline [of pw g la lo tb ta] by fastforce
  have c: "\<exists>g'. open_dataset d f = Some g' \<and> geospatial_first_scanline_first_fov_lon g' < 0"
    if r: "find_mirs_files pw track d W True ixs = Inr (imgs, snds)"
      and f: "f \<in> set imgs \<union> set snds" for f
  proof -
    from find_mirs_files_sets [OF r] f
    obtain i where "point_matches pw track d W True f i" by auto
    then show ?thesis
      unfolding point_matches_iff using overlaps_dateline by blast
  qed
  have e: "(prefix ''NPR-MIRS-IMG'' f \<longrightarrow> f \<in> set imgs) \<and>
      (prefix ''NPR-MIRS-SND'' f \<longrightarrow> f \<in> set snds)"
    if r: "find_mirs_files pw track d W False ixs = Inr (imgs, snds)"
      and l: "listdir d = Some files" "f \<in> set files" "suffix ''.nc'' f"
      and i: "i \<in> set (scanned_indices track ixs)" "iloc track i = Inr row"
             "open_dataset d f = Some g'"
      and t: "ISO_TIME row - to_timedelta_h W \<le> time_coverage_start g'"
             "time_coverage_end g' \<le> ISO_TIME row + to_timedelta_h W"
      and p: "pw (LON_180 row, LAT row) (geospatial_bounds g')"
  proof -
    have "point_matches pw track d W False f i"
      unfolding point_matches_iff overlaps_no_dateline using i t p by blast
    with find_mirs_files_sets [OF r] l i(1) show ?thesis by auto
  qed
  from a overlaps_no_dateline [of pw g la lo tb ta] c e show ?thesis by blast
qed

theorem dateline_filter_witness:
  "geospatial_first_scanline_first_fov_lon
     (example_granule (timestamp 2021 8 29 14 0 0) (timestamp 2021 8 29 14 10 0) 5) = 5 \<and>
   \<not> granule_overlaps_track_point example_within
      (example_granule (timestamp 2021 8 29 14 0 0) (timestamp 2021 8 29 14 10 0) 5)
      29.1 (-90.2)
      (timestamp 2021 8 29 12 0 0 - to_timedelta_h 12)
      (timestamp 2021 8 29 12 0 0 + to_timedelta_h 12) True \<and>
   granule_overlaps_track_point example_within
      (example_granule (timestamp 2021 8 29 14 0 0) (timestamp 2021 8 29 14 10 0) 5)
      29.1 (-90.2)
      (timestamp 2021 8 29 12 0 0 - to_timedelta_h 12)
      (timestamp 2021 8 29 12 0 0 + to_timedelta_h 12) False \<and>
   find_mirs_files example_within example_track example_directory 12 True None =
     Inr ([''NPR-MIRS-IMG_a.nc''], [''NPR-MIRS-SND_a.nc'']) \<and>
   find_mirs_files example_within example_track example_directory 12 False None =
     Inr ([''NPR-MIRS-IMG_a.nc'', ''NPR-MIRS-IMG_east.nc''], [''NPR-MIRS-SND_a.nc''])"
proof -
  let ?g = "example_granule (timestamp 2021 8 29 14 0 0) (timestamp 2021 8 29 14 10 0) 5"
  let ?t = "timestamp 2021 8 29 12 0 0"
  have h0: "geospatial_first_scanline_first_fov_lon ?g = 5"
    by (simp add: example_granule_def)
  have h1: "?t - to_timedelta_h 12 \<le> time_coverage_start ?g \<and>
      time_coverage_end ?g \<le> ?t + to_timedelta_h 12 \<and>
      example_within (-90.2, 29.1) (geospatial_bounds ?g)"
    by (simp add: overlap_eval)
  note t = dateline_filter [of ?g example_within "29.1" "-90.2"
      "?t - to_timedelta_h 12" "?t + to_timedelta_h 12"]
  from t [THEN conjunct1] h0 have c1: "\<not> granule_overlaps_track_point example_within ?g 29.1 (-90.2)
      (?t - to_timedelta_h 12) (?t + to_timedelta_h 12) True"
    by simp
  from t [THEN conjunct2, THEN conjunct1] h1 have c2: "granule_overlaps_track_point example_within ?g 29.1 (-90.2)
      (?t - to_timedelta_h 12) (?t + to_timedelta_h 12) False"
    by blast
  have f1: "find_mirs_files example_within example_track example_directory 12 True None =
     Inr ([''NPR-MIRS-IMG_a.nc''], [''NPR-MIRS-SND_a.nc''])"
    by code_simp
  have f2: "find_mirs_files example_within example_track example_directory 12 False None =
     Inr ([''NPR-MIRS-IMG_a.nc'', ''NPR-MIRS-IMG_east.nc''], [''NPR-MIRS-SND_a.nc''])"
    by code_simp
  from h0 c1 c2 f1 f2 show ?thesis by blast
qed

section \<open>Granule merger\<close>

text \<open>
  C2. \<open>load_and_merge_mirs\<close> raises \<open>ValueError\<close> whenever the imagery or the sounding
  list is empty, so that nothing is merged; for two non-empty lists it raises neither of
  the two errors of that check, and returns the two merged datasets when every file
  opens and the concatenations and the selection succeed.
\<close>

theorem load_and_merge_mirs_empty_lists:
  "(img_files = [] \<or> snd_files = [] \<longrightarrow>
      (\<exists>msg. load_and_merge_mirs xr img_files snd_files d keep rm = Inl (ValueError msg))) \<and>
   (img_files = [] \<longrightarrow>
      load_and_merge_mirs xr img_files snd_files d keep rm =
        Inl (ValueError ''No MIRS IMG files provided.'')) \<and>
   (img_files \<noteq> [] \<and> snd_files = [] \<longrightarrow>
      load_and_merge_mirs xr img_files snd_files d keep rm =
        Inl (ValueError ''No MIRS SND files provided.'')) \<and>
   (img_files \<noteq> [] \<and> snd_files \<noteq> [] \<longrightarrow>
      load_and_merge_mirs xr img_files snd_files d keep rm \<noteq>
        Inl (ValueError ''No MIRS IMG files provided.'') \<and>
      load_and_merge_mirs xr img_files snd_files d keep rm \<noteq>
        Inl (ValueError ''No MIRS SND files provided.'')) \<and>
   (img_files \<noteq> [] \<and> snd_files \<noteq> [] \<and>
    open_all d img_files = Inr imgs \<and> xr_concat xr imgs = Some img_all \<and>
    open_all d snd_files = Inr snds \<and> xr_concat xr snds = Some snd_all \<and>
    xr_getitem xr keep snd_all = Some ds_snd \<longrightarrow>
      load_and_merge_mirs xr img_files snd_files d keep rm =
        Inr (xr_drop_vars xr rm img_all, ds_snd))"
proof -
  have open_all_err: "open_all d fs \<noteq> Inl (ValueError msg)" for fs msg
    by (induction fs) (auto split: option.splits sum.splits)
  have "load_and_merge_mirs xr img_files snd_files d keep rm \<noteq> Inl (ValueError msg)"
    if "img_files \<noteq> []" "snd_files \<noteq> []" for msg
    using that open_all_err
    by (auto simp: load_and_merge_mirs_def Let_def split: sum.splits option.splits)
  then show ?thesis
    by (auto simp: load_and_merge_mirs_def)
qed

theorem load_and_merge_mirs_empty_lists_witness:
  "load_and_merge_mirs example_xr [] [''NPR-MIRS-SND_a.nc''] example_directory
      SND_VARS_TO_KEEP IMG_VARS_TO_REMOVE = Inl (ValueError ''No MIRS IMG files provided.'') \<and>
   load_and_merge_mirs example_xr [''NPR-MIRS-IMG_a.nc''] [] example_directory
      SND_VARS_TO_KEEP IMG_VARS_TO_REMOVE = Inl (ValueError ''No MIRS SND files provided.'') \<and>
   load_and_merge_mirs example_xr [''NPR-MIRS-IMG_a.nc'', ''NPR-MIRS-IMG_east.nc'']
      [''NPR-MIRS-SND_a.nc''] example_directory SND_VARS_TO_KEEP IMG_VARS_TO_REMOVE
     \<noteq> Inl (ValueError ''No MIRS IMG files provided.'') \<and>
   (case load_and_merge_mirs example_xr [''NPR-MIRS-IMG_a.nc'', ''NPR-MIRS-IMG_east.nc'']
           [''NPR-MIRS-SND_a.nc''] example_directory SND_VARS_TO_KEEP IMG_VARS_TO_REMOVE of
      Inl e \<Rightarrow> False
    | Inr (ds_img, ds_snd) \<Rightarrow>
        map_of (data_vars ds_img) ''PTemp'' = Some [250, 250] \<and>
        map_of (data_vars ds_img) ''Snow'' = None \<and>
        map fst (data_vars ds_snd) = SND_VARS_TO_KEEP)"
proof -
  note t = load_and_merge_mirs_empty_lists [where xr = example_xr and d = example_directory
      and keep = SND_VARS_TO_KEEP and rm = IMG_VARS_TO_REMOVE]
  have c1: "load_and_merge_mirs example_xr [] [''NPR-MIRS-SND_a.nc''] example_directory
      SND_VARS_TO_KEEP IMG_VARS_TO_REMOVE = Inl (ValueError ''No MIRS IMG files provided.'')"
    using t [of "[]" "[''NPR-MIRS-SND_a.nc'']"] by simp
  have c2: "load_and_merge_mirs example_xr [''NPR-MIRS-IMG_a.nc''] [] example_directory
      SND_VARS_TO_KEEP IMG_VARS_TO_REMOVE = Inl (ValueError ''No MIRS SND files provided.'')"
    using t [of "[''NPR-MIRS-IMG_a.nc'']" "[]"] by simp
  have c3: "load_and_merge_mirs example_xr [''NPR-MIRS-IMG_a.nc'', ''NPR-MIRS-IMG_east.nc'']
      [''NPR-MIRS-SND_a.nc''] example_directory SND_VARS_TO_KEEP IMG_VARS_TO_REMOVE
     \<noteq> Inl (ValueError ''No MIRS IMG files provided.'')"
    using t [of "[''NPR-MIRS-IMG_a.nc'', ''NPR-MIRS-IMG_east.nc'']" "[''NPR-MIRS-SND_a.nc'']"]
    by simp
  have c4: "(case load_and_merge_mirs example_xr [''NPR-MIRS-IMG_a.nc'', ''NPR-MIRS-IMG_east.nc'']
           [''NPR-MIRS-SND_a.nc''] example_directory SND_VARS_TO_KEEP IMG_VARS_TO_REMOVE of
      Inl e \<Rightarrow> False
    | Inr (ds_img, ds_snd) \<Rightarrow>
        map_of (data_vars ds_img) ''PTemp'' = Some [250, 250] \<and>
        map_of (data_vars ds_img) ''Snow'' = None \<and>
        map fst (data_vars ds_snd) = SND_VARS_TO_KEEP)"
    by code_simp
  from c1 c2 c3 c4 show ?thesis by blast
qed

section \<open>Output assembler\<close>









section \<open>Command line\<close>





lemma iloc_Nil: "iloc [] i = Inl IndexError"
  by (simp add: iloc_def)

lemma find_mirs_files_empty_track:
  assumes "listdir d = Some files"
  shows "find_mirs_files pw [] d W req ixs =
          (if ixs = None \<or> ixs = Some [] then Inr ([], []) else Inl IndexError)"
proof (cases ixs)
  case None
  then show ?thesis using assms by (simp add: find_mirs_files_def scanned_indices_def)
next
  case (Some l)
  then show ?thesis using assms
    by (cases l) (simp_all add: find_mirs_files_def scanned_indices_def iloc_Nil)
qed

text \<open>
  C9. When no row matches the storm name and year, \<open>get_storm_track\<close> returns the empty
  track, not an error. Downstream, \<open>find_mirs_files\<close> turns the empty track into two
  empty file lists and \<open>load_and_merge_mirs\<close> fails on them; so \<open>main\<close> fails at the
  empty imagery list when no track indices are given (or an empty list of them), and
  at the first index lookup in \<open>find_mirs_files\<close> when some are.
\<close>

theorem empty_track_fails_downstream:
  assumes "1678 \<le> yr \<and> yr \<le> 2261"
    and "\<forall>r\<in>set (drop 1 table).
           \<not> (NAME r = nm \<and> timestamp yr 1 1 0 0 0 \<le> ISO_TIME r \<and>
              ISO_TIME r < timestamp (yr + 1) 1 1 0 0 0)"
  shows "get_storm_track nm yr (Inr table) flt = Inr [] \<and>
         (\<forall>pw d W req files.
            listdir d = Some files \<longrightarrow> find_mirs_files pw [] d W req None = Inr ([], [])) \<and>
         (\<forall>xr d keep rm.
            load_and_merge_mirs xr [] [] d keep rm =
              Inl (ValueError ''No MIRS IMG files provided.'')) \<and>
         (\<forall>pw xr fs argv a files.
            parse_args argv = Inr a \<and> upper (name a) = nm \<and> year a = yr \<and>
            read_csv fs (ibt_csv a) = Inr table \<and>
            listdir (mirs_directory fs (mirs_dir a)) = Some files \<longrightarrow>
            main pw xr fs argv =
              Inl (if test_indices a = None \<or> test_indices a = Some []
                   then ValueError ''No MIRS IMG files provided.'' else IndexError))"
proof -
  have e: "get_storm_track nm yr (Inr table) f = Inr []" for f
    using assms by (auto simp add: get_storm_track_total filter_empty_conv)
  have "main pw xr fs argv =
              Inl (if test_indices a = None \<or> test_indices a = Some []
                   then ValueError ''No MIRS IMG files provided.'' else IndexError)"
    if "parse_args argv = Inr a" "upper (name a) = nm" "year a = yr"
       "read_csv fs (ibt_csv a) = Inr table"
       "listdir (mirs_directory fs (mirs_dir a)) = Some files"
    for pw xr fs argv a files
    using that e
    by (simp add: main_def main_track_def Let_def find_mirs_files_empty_track
        load_and_merge_mirs_def)
  moreover have "find_mirs_files pw [] d W req None = Inr ([], [])"
    if "listdir d = Some files" for pw d W req files
    using find_mirs_files_empty_track [OF that, of pw W req None] by simp
  moreover have "load_and_merge_mirs xr [] [] d keep rm =
      Inl (ValueError ''No MIRS IMG files provided.'')" for xr d keep rm
    by (simp add: load_and_merge_mirs_def)
  ultimately show ?thesis using e by blast
qed

text \<open>On the example, no row of the table is named ZETA.\<close>

theorem empty_track_fails_downstream_witness:
  "get_storm_track ''ZETA'' 2021 (Inr example_table) True = Inr [] \<and>
   main example_within example_xr example_files [OptName ''zeta'', OptYear 2021] =
     Inl (ValueError ''No MIRS IMG files provided.'') \<and>
   main example_within example_xr example_files
       [OptName ''zeta'', OptYear 2021, OptTestIndices [0]] = Inl IndexError"
proof -
  have r: "1678 \<le> (2021::int) \<and> (2021::int) \<le> 2261"
    by simp
  have n: "\<forall>r\<in>set (drop 1 example_table).
           \<not> (NAME r = ''ZETA'' \<and> timestamp 2021 1 1 0 0 0 \<le> ISO_TIME r \<and>
              ISO_TIME r < timestamp (2021 + 1) 1 1 0 0 0)"
    by (simp add: example_table_def)
  note t = empty_track_fails_downstream [OF r n]
  have u: "upper ''zeta'' = ''ZETA''"
    by code_simp
  let ?a = "default_args ''zeta'' 2021"
  let ?b = "(default_args ''zeta'' 2021) \<lparr>test_indices := Some [0]\<rparr>"
  have pa: "parse_args [OptName ''zeta'', OptYear 2021] = Inr ?a"
    by (simp add: parse_args_def default_args_def)
  have pb: "parse_args [OptName ''zeta'', OptYear 2021, OptTestIndices [0]] = Inr ?b"
    by (simp add: parse_args_def default_args_def)
  have fa: "upper (args.name ?a) = ''ZETA''" "year ?a = 2021"
      "read_csv example_files (ibt_csv ?a) = Inr example_table"
      "listdir (mirs_directory example_files (mirs_dir ?a)) = listdir example_directory"
      "test_indices ?a = None"
    by (simp_all add: default_args_def example_files_def u)
  have fb: "upper (args.name ?b) = ''ZETA''" "year ?b = 2021"
      "read_csv example_files (ibt_csv ?b) = Inr example_table"
      "listdir (mirs_directory example_files (mirs_dir ?b)) = listdir example_directory"
      "test_indices ?b = Some [0]"
    by (simp_all add: default_args_def example_files_def u)
  have l: "listdir example_directory = Some [''NPR-MIRS-SND_a.nc'', ''NPR-MIRS-IMG_late.nc'',
      ''README.txt'', ''NPR-MIRS-IMG_east.nc'', ''NPR-MIRS-IMG_a.nc'']"
    by (simp add: example_directory_def)
  from t [of True] have c1: "get_storm_track ''ZETA'' 2021 (Inr example_table) True = Inr []"
    by blast
  from t [of True, THEN conjunct2, THEN conjunct2, THEN conjunct2, rule_format,
      where argv = "[OptName ''zeta'', OptYear 2021]" and a = ?a and fs = example_files
        and pw = example_within and xr = example_xr] pa fa l
  have c2: "main example_within example_xr example_files [OptName ''zeta'', OptYear 2021] =
     Inl (ValueError ''No MIRS IMG files provided.'')"
    by simp
  from t [of True, THEN conjunct2, THEN conjunct2, THEN conjunct2, rule_format,
      where argv = "[OptName ''zeta'', OptYear 2021, OptTestIndices [0]]" and a = ?b
        and fs = example_files and pw = example_within and xr = example_xr] pb fb l
  have c3: "main example_within example_xr example_files
       [OptName ''zeta'', OptYear 2021, OptTestIndices [0]] = Inl IndexError"
    by simp
  from c1 c2 c3 show ?thesis by blast
qed

text \<open>
  The whole of \<open>main\<close> on the example: IDA, 2021, with the defaults, writes the
  dataset of the two matching granules under the default file name.
\<close>

lemma main_example:
  "(case main example_within example_xr example_files [OptName ''ida'', OptYear 2021] of
      Inl e \<Rightarrow> False
    | Inr (path, out) \<Rightarrow>
        path = ''IDA_2021_all_data.nc'' \<and> TC_name out = ''IDA'' \<and>
        TC_time_start out = ''2021-08-26 12:00:00'' \<and>
        TC_minimum_lat out = Some 16.5 \<and> TC_maximum_lon out = Some (-78.9))"
  by code_simp

end
